theory Spec2Isabelle
  imports Complex_Main
begin

section \<open>HowToModal: the scroll lock of the help dialog\<close>

text \<open>
  The part of the browser that \<^verbatim>\<open>HowToModal.jsx\<close> touches from its effect:
  \<^verbatim>\<open>document.body.style.overflow\<close>, the \<^verbatim>\<open>keydown\<close> listeners of
  \<^verbatim>\<open>window\<close> and the timers started with \<^verbatim>\<open>setTimeout\<close>. A listener is
  identified by the \<^verbatim>\<open>onClose\<close> callback its closure holds.
\<close>

record browser =
  body_overflow :: string
  keydown_listeners :: "nat list"
  focus_timers :: nat

text \<open>
  The function an effect returns closes over \<^verbatim>\<open>onKey\<close> and \<^verbatim>\<open>prev\<close>.
\<close>

datatype cleanup = Cleanup (cl_onKey: nat) (cl_prev: string)

text \<open>
  \<^verbatim>\<open>
  useEffect(() => {
    if (!open) return;
    const onKey = (e) => { if (e.key === 'Escape') onClose?.(); };
    window.addEventListener('keydown', onKey);
    const prev = document.body.style.overflow;
    document.body.style.overflow = 'hidden';
    setTimeout(() => closeBtnRef.current?.focus(), 0);
    return () => {
      window.removeEventListener('keydown', onKey);
      document.body.style.overflow = prev;
    };
  }, [open, onClose]);
  \<close>
\<close>

definition HowToModal_effect :: "bool \<Rightarrow> nat \<Rightarrow> browser \<Rightarrow> browser \<times> cleanup option" where
  "HowToModal_effect is_open onClose b =
     (if \<not> is_open then (b, None)
      else (b\<lparr>keydown_listeners := keydown_listeners b @ [onClose],
               body_overflow := ''hidden'',
               focus_timers := Suc (focus_timers b)\<rparr>,
            Some (Cleanup onClose (body_overflow b))))"

definition run_cleanup :: "cleanup \<Rightarrow> browser \<Rightarrow> browser" where
  "run_cleanup c b =
     b\<lparr>keydown_listeners := remove1 (cl_onKey c) (keydown_listeners b),
       body_overflow := cl_prev c\<rparr>"

text \<open>
  What React keeps for one \<^verbatim>\<open>useEffect\<close>: the dependency values of the last run
  and the function that run returned. At a commit the effect runs when there was no run
  before or a dependency differs; the previous cleanup runs first. Unmounting runs the
  pending cleanup.
\<close>

record effect_slot =
  last_deps :: "(bool \<times> nat) option"
  pending :: "cleanup option"

definition fresh_slot :: effect_slot where
  "fresh_slot = \<lparr>last_deps = None, pending = None\<rparr>"

definition commit :: "bool \<Rightarrow> nat \<Rightarrow> effect_slot \<times> browser \<Rightarrow> effect_slot \<times> browser" where
  "commit is_open onClose st =
     (if last_deps (fst st) = Some (is_open, onClose) then st
      else
        (let b1 = (case pending (fst st) of None \<Rightarrow> snd st | Some c \<Rightarrow> run_cleanup c (snd st));
             r = HowToModal_effect is_open onClose b1
         in (\<lparr>last_deps = Some (is_open, onClose), pending = snd r\<rparr>, fst r)))"

definition unmount :: "effect_slot \<times> browser \<Rightarrow> browser" where
  "unmount st = (case pending (fst st) of None \<Rightarrow> snd st | Some c \<Rightarrow> run_cleanup c (snd st))"

text \<open>
  \<^verbatim>\<open>App\<close> passes a new \<^verbatim>\<open>onClose\<close> arrow function at each of its renders, so
  while the dialog is open every render of \<^verbatim>\<open>App\<close> re-runs the effect.
\<close>

definition rerender_open :: "nat list \<Rightarrow> effect_slot \<times> browser \<Rightarrow> effect_slot \<times> browser" where
  "rerender_open ks st = foldl (\<lambda>s k. commit True k s) st ks"

section \<open>App: the signal state and its setters\<close>

text \<open>
  The seven \<^verbatim>\<open>useState\<close> cells of \<^verbatim>\<open>App\<close>. A signal is an identifier or
  \<^verbatim>\<open>null\<close>.
\<close>

record app_state =
  token :: "string option"
  showRegister :: bool
  expression :: "string option"
  viseme :: "string option"
  gesture :: "string option"
  speaking :: bool
  showHelp :: bool

text \<open>
  Around the cells: \<^verbatim>\<open>localStorage\<close>'s \<^verbatim>\<open>token\<close> entry, and whatever the
  avatar canvas keeps of animation timing and of the render surface (the state of
  \<^verbatim>\<open>AvatarCanvas\<close>, which \<^verbatim>\<open>App\<close> never reads or writes).
\<close>

record ('t, 'r) world =
  cells :: app_state
  stored_token :: "string option"
  anim_timing :: 't
  render_surface :: 'r

definition initial_cells :: "string option \<Rightarrow> app_state" where
  "initial_cells stored =
     \<lparr>token = stored, showRegister = False, expression = None, viseme = None,
      gesture = None, speaking = False, showHelp = False\<rparr>"

definition setExpression :: "string option \<Rightarrow> ('t, 'r) world \<Rightarrow> ('t, 'r) world" where
  "setExpression v w = w\<lparr>cells := (cells w)\<lparr>expression := v\<rparr>\<rparr>"

definition setViseme :: "string option \<Rightarrow> ('t, 'r) world \<Rightarrow> ('t, 'r) world" where
  "setViseme v w = w\<lparr>cells := (cells w)\<lparr>viseme := v\<rparr>\<rparr>"

definition setGesture :: "string option \<Rightarrow> ('t, 'r) world \<Rightarrow> ('t, 'r) world" where
  "setGesture v w = w\<lparr>cells := (cells w)\<lparr>gesture := v\<rparr>\<rparr>"

definition setSpeaking :: "bool \<Rightarrow> ('t, 'r) world \<Rightarrow> ('t, 'r) world" where
  "setSpeaking v w = w\<lparr>cells := (cells w)\<lparr>speaking := v\<rparr>\<rparr>"

definition setToken :: "string option \<Rightarrow> ('t, 'r) world \<Rightarrow> ('t, 'r) world" where
  "setToken v w = w\<lparr>cells := (cells w)\<lparr>token := v\<rparr>\<rparr>"

definition handleLogout :: "('t, 'r) world \<Rightarrow> ('t, 'r) world" where
  "handleLogout w = setToken None (w\<lparr>stored_token := None\<rparr>)"

definition onLogin :: "string \<Rightarrow> ('t, 'r) world \<Rightarrow> ('t, 'r) world" where
  "onLogin tok w = setToken (Some tok) (w\<lparr>stored_token := Some tok\<rparr>)"

text \<open>
  \<^verbatim>\<open>!token\<close>: a token that is \<^verbatim>\<open>null\<close> or the empty string is falsy.
\<close>

definition no_token :: "string option \<Rightarrow> bool" where
  "no_token t = (case t of None \<Rightarrow> True | Some s \<Rightarrow> s = [])"

text \<open>
  What \<^verbatim>\<open>App\<close> returns: the login or registration form when \<^verbatim>\<open>!token\<close>, else
  the two panes, with the four signal cells handed to \<^verbatim>\<open>AvatarCanvas\<close> as props.
\<close>

record avatar_props =
  p_expression :: "string option"
  p_viseme :: "string option"
  p_gesture :: "string option"
  p_speaking :: bool

datatype view = AuthView bool | MainView avatar_props bool

definition App_view :: "app_state \<Rightarrow> view" where
  "App_view s =
     (if no_token (token s) then AuthView (showRegister s)
      else MainView \<lparr>p_expression = expression s, p_viseme = viseme s,
                     p_gesture = gesture s, p_speaking = speaking s\<rparr> (showHelp s))"

section \<open>App: loading the morph hints\<close>

text \<open>
  JavaScript values as far as the hint loader tells them apart, and their truthiness
  (the left operand of \<^verbatim>\<open>&&\<close>).
\<close>

datatype jsval =
    JUndefined | JNull | JBool bool | JNum real | JStr string
  | JArr "jsval list" | JObj "(string \<times> jsval) list"

fun truthy :: "jsval \<Rightarrow> bool" where
  "truthy JUndefined = False"
| "truthy JNull = False"
| "truthy (JBool b) = b"
| "truthy (JNum n) = (n \<noteq> 0)"
| "truthy (JStr s) = (s \<noteq> [])"
| "truthy (JArr xs) = True"
| "truthy (JObj kvs) = True"

datatype js_error = NetworkError | SyntaxError | Thrown jsval

datatype 'a settled = Fulfilled 'a | Rejected js_error

fun is_rejected :: "'a settled \<Rightarrow> bool" where
  "is_rejected (Rejected e) = True"
| "is_rejected (Fulfilled v) = False"

text \<open>
  A \<^verbatim>\<open>Response\<close>: its \<^verbatim>\<open>ok\<close> flag and what \<^verbatim>\<open>r.json()\<close> settles to
  (rejected with a \<^verbatim>\<open>SyntaxError\<close> when the body does not parse).
\<close>

record response =
  ok :: bool
  json :: "jsval settled"

text \<open>
  The calls the loader makes to the outside, in order. A promise is modelled by the
  calls made until it settles and the value or error it settles to.
\<close>

datatype action = Fetch string | SetMorphIndexHints jsval

fun is_fetch :: "action \<Rightarrow> bool" where
  "is_fetch (Fetch p) = True"
| "is_fetch (SetMorphIndexHints d) = False"

type_synonym 'a promise = "action list \<times> 'a settled"

definition then_p :: "'a promise \<Rightarrow> ('a \<Rightarrow> 'b promise) \<Rightarrow> 'b promise" where
  "then_p p f =
     (case snd p of
        Rejected e \<Rightarrow> (fst p, Rejected e)
      | Fulfilled v \<Rightarrow> (fst p @ fst (f v), snd (f v)))"

definition catch_p :: "'a promise \<Rightarrow> (js_error \<Rightarrow> 'a promise) \<Rightarrow> 'a promise" where
  "catch_p p h =
     (case snd p of
        Rejected e \<Rightarrow> (fst p @ fst (h e), snd (h e))
      | Fulfilled v \<Rightarrow> p)"

text \<open>
  \<^verbatim>\<open>
  fetch('/avatar.morphmap.json')
    .then(r => r.ok ? r.json() : null)
    .then(data => data && setMorphIndexHints(data))
    .catch(() => {});
  \<close>
  \<^verbatim>\<open>fetch\<close> is the network; \<^verbatim>\<open>setMorphIndexHints\<close> comes from
  \<^verbatim>\<open>utils/animationUtils\<close>, so what it returns and whether it throws is the
  parameter \<open>setter\<close>.
\<close>

definition load_hints ::
  "(string \<Rightarrow> response settled) \<Rightarrow> (jsval \<Rightarrow> jsval settled) \<Rightarrow> jsval promise" where
  "load_hints fetch setter =
     catch_p
       (then_p
          (then_p ([Fetch ''/avatar.morphmap.json''], fetch ''/avatar.morphmap.json'')
             (\<lambda>r. if ok r then ([], json r) else ([], Fulfilled JNull)))
          (\<lambda>data. if truthy data then ([SetMorphIndexHints data], setter data)
                   else ([], Fulfilled data)))
       (\<lambda>e. ([], Fulfilled JUndefined))"

text \<open>
  The three ways the load fails: \<^verbatim>\<open>fetch\<close> rejects, the status is not ok, the body
  does not parse.
\<close>

fun load_failure :: "response settled \<Rightarrow> bool" where
  "load_failure (Rejected e) = True"
| "load_failure (Fulfilled r) = (\<not> ok r \<or> is_rejected (json r))"

text \<open>
  The effect is declared with the dependency list \<^verbatim>\<open>[]\<close>: React runs it at the
  first commit, and at a later commit only if a dependency differs from the last run's.
  \<open>App_session\<close> is the mount followed by any number of re-renders.
\<close>

definition deps_changed :: "'d list option \<Rightarrow> 'd list \<Rightarrow> bool" where
  "deps_changed prev cur = (case prev of None \<Rightarrow> True | Some p \<Rightarrow> p \<noteq> cur)"

fun App_commits ::
  "(string \<Rightarrow> response settled) \<Rightarrow> (jsval \<Rightarrow> jsval settled) \<Rightarrow> unit list option \<Rightarrow> nat
     \<Rightarrow> action list" where
  "App_commits fetch setter prev 0 = []"
| "App_commits fetch setter prev (Suc n) =
     (if deps_changed prev [] then fst (load_hints fetch setter) else [])
     @ App_commits fetch setter (Some []) n"

definition App_session ::
  "(string \<Rightarrow> response settled) \<Rightarrow> (jsval \<Rightarrow> jsval settled) \<Rightarrow> nat \<Rightarrow> action list" where
  "App_session fetch setter rerenders = App_commits fetch setter None (Suc rerenders)"

section \<open>The animation clock\<close>

text \<open>
  Modelled from the spec: \<^verbatim>\<open>AnimationClock\<close> (section 4.6). \<^verbatim>\<open>App.jsx\<close> imports
  the engine from \<^verbatim>\<open>components/AvatarCanvas\<close> and \<^verbatim>\<open>utils/animationUtils\<close>,
  neither of them among the sources. The clock remembers the time of the previous tick
  and has a maximum delta (the spec's example is 100 ms); times are in milliseconds.
\<close>

record clock =
  last_tick :: real
  max_delta :: real

text \<open>
  Modelled from the spec: the tick of \<^verbatim>\<open>AnimationClock\<close>, absent from the sources.
  It ``supplies \<^verbatim>\<open>deltaTime\<close> (wall-clock elapsed since previous tick, clamped to a
  maximum)'' and remembers the new time.
\<close>

definition tick :: "real \<Rightarrow> clock \<Rightarrow> real \<times> clock" where
  "tick now c = (min (now - last_tick c) (max_delta c), c\<lparr>last_tick := now\<rparr>)"

text \<open>
  Modelled from the spec: the per-frame update of the engine, absent from the sources.
  The tick ``drives all channels' \<^verbatim>\<open>advance()\<close>'' with the delta of the clock; the
  channels and their \<^verbatim>\<open>advance\<close> are the parameters \<open>ch\<close> and \<open>adv\<close>.
\<close>

definition frame :: "(real \<Rightarrow> 'c \<Rightarrow> 'c) \<Rightarrow> real \<Rightarrow> clock \<times> 'c \<Rightarrow> clock \<times> 'c" where
  "frame adv now st = (snd (tick now (fst st)), adv (fst (tick now (fst st))) (snd st))"

text \<open>
  Modelled from the spec: the deltas \<^verbatim>\<open>AnimationClock\<close> (absent from the sources)
  supplies over a run of ticks at the given times.
\<close>

fun deltas :: "real list \<Rightarrow> clock \<Rightarrow> real list" where
  "deltas [] c = []"
| "deltas (now # nows) c = fst (tick now c) # deltas nows (snd (tick now c))"

section \<open>The gesture state machine\<close>

text \<open>
  Modelled from the spec: the states of \<^verbatim>\<open>GestureStateMachine\<close> (section 4.4:
  ``Idle, Queued, Playing, Cooldown''), whose code is not among the sources.
\<close>

datatype gsm_phase = Idle | Queued | Playing | Cooldown

text \<open>
  Modelled from the spec: \<^verbatim>\<open>GestureRequest\<close> (section 3: ``gesture kind, optional
  intensity''), absent from the sources.
\<close>

record gesture_request =
  kind :: string
  intensity :: "real option"

text \<open>
  Modelled from the spec: what \<^verbatim>\<open>GestureStateMachine\<close> (absent from the sources) is
  configured with: the length of the timed curve of each known gesture kind (no entry
  for an unknown kind; the spec gives about 900 ms for a nod) and the refractory period
  (default about 150 ms).
\<close>

record gsm_config =
  duration_of :: "string \<Rightarrow> real option"
  cooldown :: real

text \<open>
  Modelled from the spec: the state of \<^verbatim>\<open>GestureStateMachine\<close>, absent from the
  sources: its phase, the gesture whose curve is in progress, the single retained
  request, the time spent in the current curve or cooldown, and for the debug surface the
  gestures that began to play and the kinds that were rejected.
\<close>

record gsm =
  phase :: gsm_phase
  playing :: "gesture_request option"
  queued :: "gesture_request option"
  timer :: real
  started :: "gesture_request list"
  reported :: "string list"

text \<open>
  Modelled from the spec: the machine of a new avatar instance (absent from the
  sources), idle with nothing queued.
\<close>

definition gsm_init :: gsm where
  "gsm_init =
     \<lparr>phase = Idle, playing = None, queued = None, timer = 0, started = [], reported = []\<rparr>"

text \<open>
  Modelled from the spec: the length of a gesture's timed curve in
  \<^verbatim>\<open>GestureStateMachine\<close>, absent from the sources.
\<close>

definition curve_length :: "gsm_config \<Rightarrow> gesture_request \<Rightarrow> real" where
  "curve_length cfg g = (case duration_of cfg (kind g) of None \<Rightarrow> 0 | Some d \<Rightarrow> d)"

text \<open>
  Modelled from the spec: \<^verbatim>\<open>request(gesture)\<close> of \<^verbatim>\<open>GestureStateMachine\<close>,
  absent from the sources. ``At most one queued gesture is retained (a newer request can
  replace a not-yet-started queued one), but never interrupts a Playing gesture'';
  ``unknown gesture kinds are rejected (no-op, reported)''.
\<close>

definition request :: "gsm_config \<Rightarrow> gesture_request \<Rightarrow> gsm \<Rightarrow> gsm" where
  "request cfg g s =
     (case duration_of cfg (kind g) of
        None \<Rightarrow> s\<lparr>reported := reported s @ [kind g]\<rparr>
      | Some d \<Rightarrow> s\<lparr>queued := Some g, phase := (if phase s = Idle then Queued else phase s)\<rparr>)"

text \<open>
  Modelled from the spec: \<^verbatim>\<open>advance(deltaTime)\<close> of \<^verbatim>\<open>GestureStateMachine\<close>,
  absent from the sources. A queued gesture starts to play; the curve of the playing
  gesture progresses and ``on completion, transitions to Cooldown, then Idle''; an idle
  machine that retains a request becomes queued.
\<close>

definition advance :: "gsm_config \<Rightarrow> real \<Rightarrow> gsm \<Rightarrow> gsm" where
  "advance cfg dt s =
     (case phase s of
        Idle \<Rightarrow> (if queued s = None then s else s\<lparr>phase := Queued\<rparr>)
      | Queued \<Rightarrow>
          (case queued s of
             None \<Rightarrow> s\<lparr>phase := Idle\<rparr>
           | Some g \<Rightarrow> s\<lparr>phase := Playing, playing := Some g, queued := None, timer := 0,
                         started := started s @ [g]\<rparr>)
      | Playing \<Rightarrow>
          (case playing s of
             None \<Rightarrow> s\<lparr>phase := Cooldown, timer := 0\<rparr>
           | Some g \<Rightarrow>
               (if curve_length cfg g \<le> timer s + dt
                then s\<lparr>phase := Cooldown, playing := None, timer := 0\<rparr>
                else s\<lparr>timer := timer s + dt\<rparr>))
      | Cooldown \<Rightarrow>
          (if cooldown cfg \<le> timer s + dt then s\<lparr>phase := Idle, timer := 0\<rparr>
           else s\<lparr>timer := timer s + dt\<rparr>))"

text \<open>
  Modelled from the spec: a run of clock ticks through \<^verbatim>\<open>GestureStateMachine\<close>
  (absent from the sources) with no request in between.
\<close>

definition ticks :: "gsm_config \<Rightarrow> real list \<Rightarrow> gsm \<Rightarrow> gsm" where
  "ticks cfg dts s = foldl (\<lambda>s dt. advance cfg dt s) s dts"

section \<open>Signals at the boundary of a channel\<close>

text \<open>
  Modelled from the spec: \<^verbatim>\<open>MorphVector\<close> (section 3: ``mapping from morph-target
  index to Weight; sparse; absence implies 0''), a type of the engine that is not among
  the sources.
\<close>

type_synonym morph_vector = "(nat \<times> real) list"

text \<open>
  Modelled from the spec: reading a \<^verbatim>\<open>MorphVector\<close>, where ``absence implies 0''.
\<close>

definition weight_at :: "morph_vector \<Rightarrow> nat \<Rightarrow> real" where
  "weight_at v i = (case map_of v i of None \<Rightarrow> 0 | Some w \<Rightarrow> w)"

text \<open>
  Modelled from the spec: \<^verbatim>\<open>ChannelState\<close> (section 3) of an
  \<^verbatim>\<open>AnimationChannel\<close>, absent from the sources: the weights at the last retarget,
  the target weights, the elapsed time since the last retarget and the blend duration.
\<close>

record channel =
  origin :: morph_vector
  target :: morph_vector
  since :: real
  blend :: real

text \<open>
  Modelled from the spec: the weight a channel (absent from the sources) contributes at
  an index, a ``linear interpolation over a configurable blend duration'' from the
  weights at the last retarget to the target.
\<close>

definition current_weight :: "channel \<Rightarrow> nat \<Rightarrow> real" where
  "current_weight ch i =
     (if blend ch \<le> since ch then weight_at (target ch) i
      else weight_at (origin ch) i
           + (weight_at (target ch) i - weight_at (origin ch) i) * (since ch / blend ch))"

text \<open>
  Modelled from the spec: \<^verbatim>\<open>setTarget(weights, durationHint)\<close> of the common channel
  contract (section 4.2), absent from the sources. The blend starts from the weights the
  channel has at that moment.
\<close>

definition setTarget :: "morph_vector \<Rightarrow> real \<Rightarrow> channel \<Rightarrow> channel" where
  "setTarget w hint ch =
     \<lparr>origin = map (\<lambda>i. (i, current_weight ch i))
                 (remdups (map fst (origin ch) @ map fst (target ch))),
      target = w, since = 0, blend = hint\<rparr>"

text \<open>
  Modelled from the spec: \<^verbatim>\<open>advance(deltaTime)\<close> of the common channel contract,
  absent from the sources.
\<close>

definition advance_channel :: "real \<Rightarrow> channel \<Rightarrow> channel" where
  "advance_channel dt ch = ch\<lparr>since := since ch + dt\<rparr>"

text \<open>
  Modelled from the spec: a run of clock ticks through a channel (absent from the
  sources), each calling \<^verbatim>\<open>advance\<close> with its delta.
\<close>

definition advances :: "real list \<Rightarrow> channel \<Rightarrow> channel" where
  "advances dts ch = foldl (\<lambda>c dt. advance_channel dt c) ch dts"

text \<open>
  Modelled from the spec: \<^verbatim>\<open>isActive()\<close> of the common channel contract, absent from
  the sources: a channel is idle once its blend is over and its target is neutral.
\<close>

definition isActive :: "channel \<Rightarrow> bool" where
  "isActive ch = (since ch < blend ch \<or> target ch \<noteq> [])"

text \<open>
  Modelled from the spec: the error of the signal boundary (section 7,
  \<^verbatim>\<open>UnknownSignal\<close>), a type of the engine that is not among the sources.
\<close>

datatype signal_error = UnknownSignal string

text \<open>
  Modelled from the spec: how the engine (absent from the sources) takes a signal value
  for a channel. ``Setting a value to null/absent means: let the channel settle to
  neutral/idle''; a known identifier retargets the channel to its preset; ``an
  unrecognized identifier is rejected at the boundary, channel holds prior state''.
\<close>

definition signal_intake ::
  "(string \<Rightarrow> morph_vector option) \<Rightarrow> real \<Rightarrow> string option \<Rightarrow> channel
     \<Rightarrow> signal_error + channel" where
  "signal_intake presets hint sig ch =
     (case sig of
        None \<Rightarrow> Inr (setTarget [] hint ch)
      | Some name \<Rightarrow>
          (case presets name of
             None \<Rightarrow> Inl (UnknownSignal name)
           | Some w \<Rightarrow> Inr (setTarget w hint ch)))"

section \<open>Invariants used in the proofs\<close>

text \<open>
  A gesture machine at rest retains no request and is not about to start one: ticks
  alone then start nothing.
\<close>

definition at_rest :: "gsm \<Rightarrow> bool" where
  "at_rest s = (queued s = None \<and> phase s \<noteq> Queued)"

text \<open>
  The invariant of an open dialog: the effect last ran with \<^verbatim>\<open>open\<close> true, the page
  is locked, and the pending cleanup holds the overflow value \<open>p\<close> from before the
  dialog opened.
\<close>

definition locked :: "string \<Rightarrow> effect_slot \<times> browser \<Rightarrow> bool" where
  "locked p st =
     (\<exists>k. last_deps (fst st) = Some (True, k) \<and> pending (fst st) = Some (Cleanup k p)
        \<and> body_overflow (snd st) = ''hidden'')"

section \<open>Properties of HowToModal\<close>

lemma effect_open_overflow:
  "body_overflow (fst (HowToModal_effect True k b)) = ''hidden''"
  by (simp add: HowToModal_effect_def)

lemma effect_open_cleanup:
  "snd (HowToModal_effect True k b) = Some (Cleanup k (body_overflow b))"
  by (simp add: HowToModal_effect_def)

lemma effect_closed_noop:
  "HowToModal_effect False k b = (b, None)"
  by (simp add: HowToModal_effect_def)

lemma run_cleanup_overflow:
  "body_overflow (run_cleanup c b) = cl_prev c"
  by (simp add: run_cleanup_def)

lemma commit_closed_first:
  "commit False k0 (fresh_slot, b) = (\<lparr>last_deps = Some (False, k0), pending = None\<rparr>, b)"
  by (simp add: commit_def fresh_slot_def HowToModal_effect_def)

lemma commit_open_locks:
  "pending f = None \<Longrightarrow> last_deps f \<noteq> Some (True, k)
     \<Longrightarrow> locked (body_overflow b) (commit True k (f, b))"
  by (simp add: commit_def locked_def HowToModal_effect_def)

lemma commit_open_keeps:
  "locked p st \<Longrightarrow> locked p (commit True k st)"
  by (auto simp add: commit_def locked_def HowToModal_effect_def run_cleanup_def Let_def)

lemma rerender_open_keeps:
  "locked p st \<Longrightarrow> locked p (rerender_open ks st)"
  unfolding rerender_open_def
  by (induction ks arbitrary: st) (simp_all add: commit_open_keeps)

lemma commit_close_restores:
  "locked p st \<Longrightarrow>
     body_overflow (snd (commit False k st)) = p \<and> pending (fst (commit False k st)) = None"
  by (auto simp add: commit_def locked_def HowToModal_effect_def run_cleanup_def Let_def)

lemma unmount_restores:
  "locked p st \<Longrightarrow> body_overflow (unmount st) = p"
  by (auto simp add: unmount_def locked_def run_cleanup_def)

text \<open>
  Claim C10. The scroll lock is a round trip. Whatever
  \<^verbatim>\<open>document.body.style.overflow\<close> was before: the commit that opens the dialog sets
  it to \<^verbatim>\<open>'hidden'\<close>; after any number of re-renders while the dialog is open (each
  with its own \<^verbatim>\<open>onClose\<close>), both the commit that closes the dialog and the unmount
  leave it at the value from before the dialog opened. For the effect on its own: it sets
  \<^verbatim>\<open>'hidden'\<close> and returns a cleanup that, run on any later page state, writes the
  prior value back.
\<close>

theorem scroll_lock_round_trip:
  "body_overflow (snd (commit True k (commit False k0 (fresh_slot, b)))) = ''hidden''
   \<and> body_overflow (snd (commit False k'
         (rerender_open ks (commit True k (commit False k0 (fresh_slot, b))))))
       = body_overflow b
   \<and> body_overflow (unmount
         (rerender_open ks (commit True k (commit False k0 (fresh_slot, b)))))
       = body_overflow b
   \<and> body_overflow (fst (HowToModal_effect True k b)) = ''hidden''
   \<and> (\<exists>c. snd (HowToModal_effect True k b) = Some c
          \<and> (\<forall>b'. body_overflow (run_cleanup c b') = body_overflow b))"
proof -
  let ?st = "commit True k (commit False k0 (fresh_slot, b))"
  have l: "locked (body_overflow b) ?st"
    unfolding commit_closed_first by (rule commit_open_locks) simp_all
  then have l': "locked (body_overflow b) (rerender_open ks ?st)"
    by (rule rerender_open_keeps)
  have 1: "body_overflow (snd ?st) = ''hidden''"
    using l by (auto simp: locked_def)
  show ?thesis
    using 1 commit_close_restores[OF l', of k'] unmount_restores[OF l']
    by (simp add: effect_open_overflow effect_open_cleanup run_cleanup_overflow)
qed

section \<open>Properties of App's signal cells\<close>

lemma setExpression_cells:
  "cells (setExpression v w) = (cells w)\<lparr>expression := v\<rparr>"
  by (simp add: setExpression_def)

lemma setViseme_cells:
  "cells (setViseme v w) = (cells w)\<lparr>viseme := v\<rparr>"
  by (simp add: setViseme_def)

lemma setGesture_cells:
  "cells (setGesture v w) = (cells w)\<lparr>gesture := v\<rparr>"
  by (simp add: setGesture_def)

lemma setSpeaking_cells:
  "cells (setSpeaking v w) = (cells w)\<lparr>speaking := v\<rparr>"
  by (simp add: setSpeaking_def)

text \<open>
  Claim C8. Each of the four signal setters writes its own cell and nothing else: the
  other three signal cells keep their values, the animation timing and the render surface
  are untouched, the token, the two dialog flags and the stored token are unchanged, and
  putting the old value back into the written cell gives the world from before the call.
\<close>

theorem signal_setters_frame:
  "expression (cells (setExpression e w)) = e
   \<and> viseme (cells (setExpression e w)) = viseme (cells w)
   \<and> gesture (cells (setExpression e w)) = gesture (cells w)
   \<and> speaking (cells (setExpression e w)) = speaking (cells w)
   \<and> anim_timing (setExpression e w) = anim_timing w
   \<and> render_surface (setExpression e w) = render_surface w
   \<and> token (cells (setExpression e w)) = token (cells w)
   \<and> showRegister (cells (setExpression e w)) = showRegister (cells w)
   \<and> showHelp (cells (setExpression e w)) = showHelp (cells w)
   \<and> stored_token (setExpression e w) = stored_token w
   \<and> setExpression (expression (cells w)) (setExpression e w) = w
   \<and> viseme (cells (setViseme v w)) = v
   \<and> expression (cells (setViseme v w)) = expression (cells w)
   \<and> gesture (cells (setViseme v w)) = gesture (cells w)
   \<and> speaking (cells (setViseme v w)) = speaking (cells w)
   \<and> anim_timing (setViseme v w) = anim_timing w
   \<and> render_surface (setViseme v w) = render_surface w
   \<and> token (cells (setViseme v w)) = token (cells w)
   \<and> showRegister (cells (setViseme v w)) = showRegister (cells w)
   \<and> showHelp (cells (setViseme v w)) = showHelp (cells w)
   \<and> stored_token (setViseme v w) = stored_token w
   \<and> setViseme (viseme (cells w)) (setViseme v w) = w
   \<and> gesture (cells (setGesture g w)) = g
   \<and> expression (cells (setGesture g w)) = expression (cells w)
   \<and> viseme (cells (setGesture g w)) = viseme (cells w)
   \<and> speaking (cells (setGesture g w)) = speaking (cells w)
   \<and> anim_timing (setGesture g w) = anim_timing w
   \<and> render_surface (setGesture g w) = render_surface w
   \<and> token (cells (setGesture g w)) = token (cells w)
   \<and> showRegister (cells (setGesture g w)) = showRegister (cells w)
   \<and> showHelp (cells (setGesture g w)) = showHelp (cells w)
   \<and> stored_token (setGesture g w) = stored_token w
   \<and> setGesture (gesture (cells w)) (setGesture g w) = w
   \<and> speaking (cells (setSpeaking sp w)) = sp
   \<and> expression (cells (setSpeaking sp w)) = expression (cells w)
   \<and> viseme (cells (setSpeaking sp w)) = viseme (cells w)
   \<and> gesture (cells (setSpeaking sp w)) = gesture (cells w)
   \<and> anim_timing (setSpeaking sp w) = anim_timing w
   \<and> render_surface (setSpeaking sp w) = render_surface w
   \<and> token (cells (setSpeaking sp w)) = token (cells w)
   \<and> showRegister (cells (setSpeaking sp w)) = showRegister (cells w)
   \<and> showHelp (cells (setSpeaking sp w)) = showHelp (cells w)
   \<and> stored_token (setSpeaking sp w) = stored_token w
   \<and> setSpeaking (speaking (cells w)) (setSpeaking sp w) = w"
  by (simp add: setExpression_def setViseme_def setGesture_def setSpeaking_def)

section \<open>Properties of the hint loader\<close>

lemma load_hints_never_rejects: "\<not> is_rejected (snd (load_hints fetch setter))"
  by (auto simp: load_hints_def then_p_def catch_p_def split: settled.splits)

lemma load_hints_fetches:
  "filter is_fetch (fst (load_hints fetch setter)) = [Fetch ''/avatar.morphmap.json'']"
  by (auto simp: load_hints_def then_p_def catch_p_def split: settled.splits)

lemma load_hints_failure:
  "load_failure (fetch ''/avatar.morphmap.json'')
     \<Longrightarrow> fst (load_hints fetch setter) = [Fetch ''/avatar.morphmap.json'']"
  by (cases "fetch ''/avatar.morphmap.json''")
     (auto simp: load_hints_def then_p_def catch_p_def split: settled.splits)

lemma load_hints_parsed:
  "fetch ''/avatar.morphmap.json'' = Fulfilled r \<Longrightarrow> ok r \<Longrightarrow> json r = Fulfilled d \<Longrightarrow>
     fst (load_hints fetch setter) =
       (if truthy d then [Fetch ''/avatar.morphmap.json'', SetMorphIndexHints d]
        else [Fetch ''/avatar.morphmap.json''])"
  by (auto simp: load_hints_def then_p_def catch_p_def split: settled.splits)

lemma load_hints_parsed_value:
  "fetch ''/avatar.morphmap.json'' = Fulfilled r \<Longrightarrow> ok r \<Longrightarrow> json r = Fulfilled d \<Longrightarrow>
     snd (load_hints fetch setter) =
       (if truthy d
        then (case setter d of Fulfilled v \<Rightarrow> Fulfilled v | Rejected e \<Rightarrow> Fulfilled JUndefined)
        else Fulfilled d)"
  by (auto simp: load_hints_def then_p_def catch_p_def split: settled.splits)

lemma App_commits_after_first: "App_commits fetch setter (Some []) n = []"
  by (induction n) (simp_all add: deps_changed_def)

lemma App_session_once: "App_session fetch setter n = fst (load_hints fetch setter)"
  by (simp add: App_session_def deps_changed_def App_commits_after_first)

text \<open>
  Claim C7. Over the mount of \<^verbatim>\<open>App\<close> and any number of re-renders, the hints are
  fetched exactly once, from \<^verbatim>\<open>/avatar.morphmap.json\<close>. The promise the effect
  builds never ends rejected, whatever \<^verbatim>\<open>fetch\<close> and the setter do. When the load
  fails (the fetch rejects, the status is not ok, or the body does not parse), the fetch
  is the only call made: \<^verbatim>\<open>setMorphIndexHints\<close> is not called. When the response is
  ok and its body parses to a truthy value, that value is handed to
  \<^verbatim>\<open>setMorphIndexHints\<close>, once, after the fetch, and the promise settles to what the
  setter returns (or to \<^verbatim>\<open>undefined\<close> if the setter throws); a falsy parsed value is
  not handed on and is what the promise settles to.
\<close>

theorem morph_hints_load_nonfatal:
  "filter is_fetch (App_session fetch setter rerenders) = [Fetch ''/avatar.morphmap.json'']
   \<and> \<not> is_rejected (snd (load_hints fetch setter))
   \<and> (load_failure (fetch ''/avatar.morphmap.json'') \<longrightarrow>
        App_session fetch setter rerenders = [Fetch ''/avatar.morphmap.json''])
   \<and> (fetch ''/avatar.morphmap.json'' = Fulfilled r \<and> ok r \<and> json r = Fulfilled d \<longrightarrow>
        App_session fetch setter rerenders =
          (if truthy d then [Fetch ''/avatar.morphmap.json'', SetMorphIndexHints d]
           else [Fetch ''/avatar.morphmap.json''])
        \<and> snd (load_hints fetch setter) =
          (if truthy d
           then (case setter d of Fulfilled v \<Rightarrow> Fulfilled v
                 | Rejected e \<Rightarrow> Fulfilled JUndefined)
           else Fulfilled d))"
proof -
  have a: "filter is_fetch (App_session fetch setter rerenders)
      = [Fetch ''/avatar.morphmap.json'']"
    by (simp add: App_session_once load_hints_fetches)
  have b: "load_failure (fetch ''/avatar.morphmap.json'') \<longrightarrow>
      App_session fetch setter rerenders = [Fetch ''/avatar.morphmap.json'']"
    by (simp add: App_session_once load_hints_failure)
  have c: "fetch ''/avatar.morphmap.json'' = Fulfilled r \<and> ok r \<and> json r = Fulfilled d \<longrightarrow>
      App_session fetch setter rerenders =
        (if truthy d then [Fetch ''/avatar.morphmap.json'', SetMorphIndexHints d]
         else [Fetch ''/avatar.morphmap.json''])"
    using load_hints_parsed[of fetch r d setter] by (simp add: App_session_once)
  have d: "fetch ''/avatar.morphmap.json'' = Fulfilled r \<and> ok r \<and> json r = Fulfilled d \<longrightarrow>
      snd (load_hints fetch setter) =
        (if truthy d
         then (case setter d of Fulfilled v \<Rightarrow> Fulfilled v
               | Rejected e \<Rightarrow> Fulfilled JUndefined)
         else Fulfilled d)"
    using load_hints_parsed_value[of fetch r d setter] by blast
  show ?thesis using a b c d load_hints_never_rejects[of fetch setter] by blast
qed

theorem morph_hints_load_nonfatal_witness:
  "load_failure
     ((\<lambda>p. Fulfilled \<lparr>ok = True, json = Rejected SyntaxError\<rparr>) ''/avatar.morphmap.json'')
   \<and> App_session (\<lambda>p. Fulfilled \<lparr>ok = True, json = Rejected SyntaxError\<rparr>)
        (\<lambda>d. Fulfilled JUndefined) 2
       = [Fetch ''/avatar.morphmap.json'']
   \<and> load_failure
       ((\<lambda>p. Fulfilled \<lparr>ok = False, json = Fulfilled (JObj [])\<rparr>) ''/avatar.morphmap.json'')
   \<and> App_session (\<lambda>p. Fulfilled \<lparr>ok = False, json = Fulfilled (JObj [])\<rparr>)
        (\<lambda>d. Fulfilled JUndefined) 2
       = [Fetch ''/avatar.morphmap.json'']
   \<and> load_failure ((\<lambda>p. Rejected NetworkError) ''/avatar.morphmap.json'')
   \<and> App_session (\<lambda>p. Rejected NetworkError) (\<lambda>d. Fulfilled JUndefined) 2
       = [Fetch ''/avatar.morphmap.json'']
   \<and> ok \<lparr>ok = True, json = Fulfilled (JObj [(''jawOpen'', JNum 3)])\<rparr>
   \<and> App_session (\<lambda>p. Fulfilled \<lparr>ok = True, json = Fulfilled (JObj [(''jawOpen'', JNum 3)])\<rparr>)
        (\<lambda>d. Rejected (Thrown JNull)) 2
       = [Fetch ''/avatar.morphmap.json'', SetMorphIndexHints (JObj [(''jawOpen'', JNum 3)])]
   \<and> snd (load_hints (\<lambda>p. Fulfilled \<lparr>ok = True, json = Fulfilled (JObj [(''jawOpen'', JNum 3)])\<rparr>)
        (\<lambda>d. Rejected (Thrown JNull)))
       = Fulfilled JUndefined"
  using
    morph_hints_load_nonfatal
      [where fetch = "\<lambda>p. Fulfilled \<lparr>ok = True, json = Fulfilled (JObj [(''jawOpen'', JNum 3)])\<rparr>"
         and setter = "\<lambda>d. Rejected (Thrown JNull)" and rerenders = 2
         and r = "\<lparr>ok = True, json = Fulfilled (JObj [(''jawOpen'', JNum 3)])\<rparr>"
         and d = "JObj [(''jawOpen'', JNum 3)]"]
    morph_hints_load_nonfatal
      [of "\<lambda>p. Fulfilled \<lparr>ok = True, json = Rejected SyntaxError\<rparr>" "\<lambda>d. Fulfilled JUndefined" 2]
    morph_hints_load_nonfatal
      [of "\<lambda>p. Fulfilled \<lparr>ok = False, json = Fulfilled (JObj [])\<rparr>" "\<lambda>d. Fulfilled JUndefined" 2]
    morph_hints_load_nonfatal
      [of "\<lambda>p. Rejected NetworkError" "\<lambda>d. Fulfilled JUndefined" 2]
  by simp

section \<open>Properties of the animation clock\<close>

lemma tick_delta: "fst (tick now c) = min (now - last_tick c) (max_delta c)"
  by (simp add: tick_def)

lemma tick_clock: "snd (tick now c) = c\<lparr>last_tick := now\<rparr>"
  by (simp add: tick_def)

lemma deltas_bounded: "sum_list (deltas nows c) \<le> real (length nows) * max_delta c"
proof (induction nows arbitrary: c)
  case Nil
  then show ?case by simp
next
  case (Cons n ns)
  have "sum_list (deltas ns (snd (tick n c))) \<le> real (length ns) * max_delta (snd (tick n c))"
    by (rule Cons.IH)
  moreover have "max_delta (snd (tick n c)) = max_delta c" by (simp add: tick_clock)
  moreover have "fst (tick n c) \<le> max_delta c" by (simp add: tick_delta)
  ultimately show ?case by (simp add: algebra_simps)
qed

lemma deltas_each: "d \<in> set (deltas nows c) \<Longrightarrow> d \<le> max_delta c"
proof (induction nows arbitrary: c)
  case Nil
  then show ?case by simp
next
  case (Cons n ns)
  then show ?case using Cons.IH[of "snd (tick n c)"] by (auto simp: tick_def)
qed

text \<open>
  Claim C6. At every tick the delta the clock supplies is the time elapsed since the
  previous tick, clamped to the maximum, and that is the delta the frame hands to the
  channels' \<^verbatim>\<open>advance\<close>. After a stall longer than the maximum the delta is
  exactly the maximum and the clock goes on from the time of the stalled tick: the next
  delta is measured from there, so the time that was cut off is never made up. Over any
  run of ticks every delta is at most the maximum, and \<open>n\<close> ticks move the channels by
  at most \<open>n\<close> times the maximum.
\<close>

theorem clock_delta_clamped:
  "fst (tick now c) = min (now - last_tick c) (max_delta c)
   \<and> fst (tick now c) \<le> max_delta c
   \<and> snd (tick now c) = c\<lparr>last_tick := now\<rparr>
   \<and> frame adv now (c, ch) = (c\<lparr>last_tick := now\<rparr>, adv (min (now - last_tick c) (max_delta c)) ch)
   \<and> (max_delta c < now - last_tick c \<longrightarrow>
        fst (tick now c) = max_delta c
        \<and> fst (tick later (snd (tick now c))) = min (later - now) (max_delta c))
   \<and> (\<forall>d \<in> set (deltas nows c). d \<le> max_delta c)
   \<and> sum_list (deltas nows c) \<le> real (length nows) * max_delta c"
  using deltas_bounded[of nows c] deltas_each[of _ nows c]
  by (simp add: tick_def frame_def)

theorem clock_delta_clamped_witness:
  "max_delta \<lparr>last_tick = 0, max_delta = 100\<rparr> < 5000 - last_tick \<lparr>last_tick = 0, max_delta = 100\<rparr>
   \<and> fst (tick 5000 \<lparr>last_tick = 0, max_delta = 100\<rparr>) = 100
   \<and> fst (tick 5016 (snd (tick 5000 \<lparr>last_tick = 0, max_delta = 100\<rparr>))) = 16
   \<and> deltas [16, 5000, 5016] \<lparr>last_tick = 0, max_delta = 100\<rparr> = [16, 100, 16]
   \<and> sum_list (deltas [16, 5000, 5016] \<lparr>last_tick = 0, max_delta = 100\<rparr>) \<le> 300"
  using clock_delta_clamped[of 5000 "\<lparr>last_tick = 0, max_delta = 100\<rparr>" "\<lambda>d x. x" "()" 5016 "[16, 5000, 5016]"]
  by (simp add: tick_def)

section \<open>Properties of the gesture state machine\<close>

lemma advance_at_rest:
  "at_rest s \<Longrightarrow> at_rest (advance cfg dt s) \<and> started (advance cfg dt s) = started s"
  by (cases "phase s") (auto simp: at_rest_def advance_def split: option.splits)

lemma ticks_at_rest:
  "at_rest s \<Longrightarrow> started (ticks cfg dts s) = started s"
  unfolding ticks_def
  by (induction dts arbitrary: s) (simp_all add: advance_at_rest)

lemma request_while_playing:
  "phase s = Playing \<Longrightarrow>
     phase (request cfg g s) = Playing \<and> playing (request cfg g s) = playing s
     \<and> timer (request cfg g s) = timer s \<and> started (request cfg g s) = started s"
  by (simp add: request_def split: option.splits)

lemma request_known_queues:
  "duration_of cfg (kind g) \<noteq> None \<Longrightarrow> queued (request cfg g s) = Some g"
  by (auto simp: request_def split: option.splits)

lemma advance_while_playing:
  "phase s = Playing \<Longrightarrow> playing s = Some g \<Longrightarrow>
     (phase (advance cfg dt s) = Playing \<and> playing (advance cfg dt s) = Some g
        \<and> timer (advance cfg dt s) = timer s + dt \<and> started (advance cfg dt s) = started s)
     \<or> (phase (advance cfg dt s) = Cooldown \<and> curve_length cfg g \<le> timer s + dt
        \<and> started (advance cfg dt s) = started s)"
  by (simp add: advance_def)

lemma advance_before_end:
  "phase s = Playing \<Longrightarrow> playing s = Some g \<Longrightarrow> timer s + dt < curve_length cfg g \<Longrightarrow>
     advance cfg dt s = s\<lparr>timer := timer s + dt\<rparr>"
  by (simp add: advance_def)

lemma playing_until_complete:
  assumes "phase s = Playing" "playing s = Some g"
    and "\<forall>d \<in> set dts. 0 \<le> d" "timer s + sum_list dts < curve_length cfg g"
  shows "ticks cfg dts s = s\<lparr>timer := timer s + sum_list dts\<rparr>"
  using assms
proof (induction dts arbitrary: s)
  case Nil
  then show ?case by (simp add: ticks_def)
next
  case (Cons d ds)
  have nn: "0 \<le> sum_list ds" using Cons.prems(3) by (simp add: sum_list_nonneg)
  then have lt: "timer s + d < curve_length cfg g" using Cons.prems(4) by simp
  let ?s' = "s\<lparr>timer := timer s + d\<rparr>"
  have step: "advance cfg d s = ?s'"
    using Cons.prems(1,2) lt by (rule advance_before_end)
  have "ticks cfg ds ?s' = ?s'\<lparr>timer := timer ?s' + sum_list ds\<rparr>"
    using Cons.prems by (intro Cons.IH) (simp_all add: add.assoc)
  moreover have "ticks cfg (d # ds) s = ticks cfg ds (advance cfg d s)"
    by (simp add: ticks_def)
  ultimately show ?case by (simp add: step add.assoc)
qed

lemma deferred_plays_after:
  assumes "phase s = Playing" "playing s = Some g1" "queued s = Some g2"
    and "curve_length cfg g1 \<le> timer s + d1" "cooldown cfg \<le> d2"
  shows "phase (ticks cfg [d1] s) = Cooldown
     \<and> started (ticks cfg [d1, d2, d3] s) = started s
     \<and> phase (ticks cfg [d1, d2, d3, d4] s) = Playing
     \<and> playing (ticks cfg [d1, d2, d3, d4] s) = Some g2
     \<and> started (ticks cfg [d1, d2, d3, d4] s) = started s @ [g2]"
  using assms by (simp add: ticks_def advance_def)

lemma latest_wins:
  assumes "phase s = Idle" "queued s = None"
    and "duration_of cfg (kind g1) \<noteq> None" "duration_of cfg (kind g2) \<noteq> None"
  shows "phase (request cfg g2 (request cfg g1 s)) = Queued
    \<and> queued (request cfg g2 (request cfg g1 s)) = Some g2
    \<and> started (ticks cfg dts (request cfg g2 (request cfg g1 s)))
          = started s @ (if dts = [] then [] else [g2])"
proof -
  let ?s2 = "request cfg g2 (request cfg g1 s)"
  have p: "phase ?s2 = Queued" and q: "queued ?s2 = Some g2"
    using assms by (auto simp: request_def split: option.splits)
  have st: "started ?s2 = started s"
    using assms by (auto simp: request_def split: option.splits)
  have "started (ticks cfg dts ?s2) = started s @ (if dts = [] then [] else [g2])"
  proof (cases dts)
    case Nil
    then show ?thesis by (simp add: ticks_def st)
  next
    case (Cons d ds)
    have r: "at_rest (advance cfg d ?s2)" and s': "started (advance cfg d ?s2) = started s @ [g2]"
      using p q st by (simp_all add: advance_def at_rest_def)
    have "ticks cfg dts ?s2 = ticks cfg ds (advance cfg d ?s2)"
      by (simp add: ticks_def Cons)
    then show ?thesis using ticks_at_rest[OF r, of cfg ds] s' Cons by simp
  qed
  with p q show ?thesis by simp
qed

text \<open>
  Claim C3. Let \<open>G1\<close> and \<open>G2\<close> be requests of known kinds. If \<open>G2\<close> arrives while
  \<open>G1\<close> is playing, then \<open>G1\<close> stays the playing gesture with its curve position
  unchanged and \<open>G2\<close> is retained; ticks that together stay short of the end of
  \<open>G1\<close>'s curve leave \<open>G1\<close> playing, advanced by exactly the time elapsed; a tick
  either moves \<open>G1\<close>'s curve forward or ends it because its full length is reached, and
  starts nothing in its place; \<open>G2\<close> starts only after \<open>G1\<close> has completed and the
  cooldown has passed, and then it does play. If
  \<open>G1\<close> and then \<open>G2\<close> are requested of an idle machine before any tick, the retained
  request is \<open>G2\<close>, and over any run of ticks the only gesture that starts is \<open>G2\<close>.
\<close>

theorem gesture_queue_latest_wins:
  assumes known: "duration_of cfg (kind g1) \<noteq> None" "duration_of cfg (kind g2) \<noteq> None"
    and play: "phase s = Playing" "playing s = Some g1"
    and early: "\<forall>d \<in> set ds. 0 \<le> d" "timer s + sum_list ds < curve_length cfg g1"
    and due: "curve_length cfg g1 \<le> timer s + d1" "cooldown cfg \<le> d2"
    and idle: "phase s0 = Idle" "queued s0 = None"
  shows
    "phase (request cfg g2 s) = Playing \<and> playing (request cfg g2 s) = Some g1
     \<and> timer (request cfg g2 s) = timer s \<and> started (request cfg g2 s) = started s
     \<and> queued (request cfg g2 s) = Some g2
     \<and> ((phase (advance cfg dt s) = Playing \<and> playing (advance cfg dt s) = Some g1
           \<and> timer (advance cfg dt s) = timer s + dt
           \<and> started (advance cfg dt s) = started s)
        \<or> (phase (advance cfg dt s) = Cooldown \<and> curve_length cfg g1 \<le> timer s + dt
           \<and> started (advance cfg dt s) = started s))
     \<and> phase (ticks cfg ds (request cfg g2 s)) = Playing
     \<and> playing (ticks cfg ds (request cfg g2 s)) = Some g1
     \<and> timer (ticks cfg ds (request cfg g2 s)) = timer s + sum_list ds
     \<and> started (ticks cfg ds (request cfg g2 s)) = started s
     \<and> phase (ticks cfg [d1] (request cfg g2 s)) = Cooldown
     \<and> started (ticks cfg [d1, d2, d3] (request cfg g2 s)) = started s
     \<and> phase (ticks cfg [d1, d2, d3, d4] (request cfg g2 s)) = Playing
     \<and> playing (ticks cfg [d1, d2, d3, d4] (request cfg g2 s)) = Some g2
     \<and> started (ticks cfg [d1, d2, d3, d4] (request cfg g2 s)) = started s @ [g2]
     \<and> phase (request cfg g2 (request cfg g1 s0)) = Queued
     \<and> queued (request cfg g2 (request cfg g1 s0)) = Some g2
     \<and> started (ticks cfg dts (request cfg g2 (request cfg g1 s0)))
         = started s0 @ (if dts = [] then [] else [g2])"
proof -
  let ?s = "request cfg g2 s"
  have a: "phase ?s = Playing \<and> playing ?s = playing s \<and> timer ?s = timer s
      \<and> started ?s = started s"
    using play(1) by (rule request_while_playing)
  have b: "queued ?s = Some g2"
    using known(2) by (rule request_known_queues)
  have c: "phase ?s = Playing" "playing ?s = Some g1" "curve_length cfg g1 \<le> timer ?s + d1"
    using a play(2) due(1) by simp_all
  note d = deferred_plays_after[OF c(1) c(2) b c(3) due(2), of d3 d4]
  note e = advance_while_playing[OF play, of cfg dt]
  note f = latest_wins[OF idle known, of dts]
  have "timer ?s + sum_list ds < curve_length cfg g1"
    using a early(2) by simp
  then have g: "ticks cfg ds ?s = ?s\<lparr>timer := timer ?s + sum_list ds\<rparr>"
    using c(1) c(2) early(1) by (intro playing_until_complete) simp_all
  show ?thesis using a b d e f play(2) by (simp add: g)
qed

theorem gesture_queue_latest_wins_witness:
  "duration_of \<lparr>duration_of = (\<lambda>k. if k = ''nod'' then Some 900 else if k = ''shake'' then Some 800 else None), cooldown = 150\<rparr>
      (kind \<lparr>kind = ''nod'', intensity = None\<rparr>) \<noteq> None
   \<and> duration_of \<lparr>duration_of = (\<lambda>k. if k = ''nod'' then Some 900 else if k = ''shake'' then Some 800 else None), cooldown = 150\<rparr>
      (kind \<lparr>kind = ''shake'', intensity = None\<rparr>) \<noteq> None
   \<and> phase (advance \<lparr>duration_of = (\<lambda>k. if k = ''nod'' then Some 900 else if k = ''shake'' then Some 800 else None), cooldown = 150\<rparr> 16
        (request \<lparr>duration_of = (\<lambda>k. if k = ''nod'' then Some 900 else if k = ''shake'' then Some 800 else None), cooldown = 150\<rparr>
           \<lparr>kind = ''nod'', intensity = None\<rparr> gsm_init)) = Playing
   \<and> started (ticks \<lparr>duration_of = (\<lambda>k. if k = ''nod'' then Some 900 else if k = ''shake'' then Some 800 else None), cooldown = 150\<rparr>
        [900, 150, 16, 16]
        (request \<lparr>duration_of = (\<lambda>k. if k = ''nod'' then Some 900 else if k = ''shake'' then Some 800 else None), cooldown = 150\<rparr>
           \<lparr>kind = ''shake'', intensity = None\<rparr>
           (advance \<lparr>duration_of = (\<lambda>k. if k = ''nod'' then Some 900 else if k = ''shake'' then Some 800 else None), cooldown = 150\<rparr> 16
              (request \<lparr>duration_of = (\<lambda>k. if k = ''nod'' then Some 900 else if k = ''shake'' then Some 800 else None), cooldown = 150\<rparr>
                 \<lparr>kind = ''nod'', intensity = None\<rparr> gsm_init))))
       = [\<lparr>kind = ''nod'', intensity = None\<rparr>, \<lparr>kind = ''shake'', intensity = None\<rparr>]
   \<and> timer (ticks \<lparr>duration_of = (\<lambda>k. if k = ''nod'' then Some 900 else if k = ''shake'' then Some 800 else None), cooldown = 150\<rparr>
        [16, 17]
        (request \<lparr>duration_of = (\<lambda>k. if k = ''nod'' then Some 900 else if k = ''shake'' then Some 800 else None), cooldown = 150\<rparr>
           \<lparr>kind = ''shake'', intensity = None\<rparr>
           (advance \<lparr>duration_of = (\<lambda>k. if k = ''nod'' then Some 900 else if k = ''shake'' then Some 800 else None), cooldown = 150\<rparr> 16
              (request \<lparr>duration_of = (\<lambda>k. if k = ''nod'' then Some 900 else if k = ''shake'' then Some 800 else None), cooldown = 150\<rparr>
                 \<lparr>kind = ''nod'', intensity = None\<rparr> gsm_init))))
       = 33
   \<and> phase gsm_init = Idle \<and> queued gsm_init = None
   \<and> started (ticks \<lparr>duration_of = (\<lambda>k. if k = ''nod'' then Some 900 else if k = ''shake'' then Some 800 else None), cooldown = 150\<rparr>
        [16, 1000, 200, 16]
        (request \<lparr>duration_of = (\<lambda>k. if k = ''nod'' then Some 900 else if k = ''shake'' then Some 800 else None), cooldown = 150\<rparr>
           \<lparr>kind = ''shake'', intensity = None\<rparr>
           (request \<lparr>duration_of = (\<lambda>k. if k = ''nod'' then Some 900 else if k = ''shake'' then Some 800 else None), cooldown = 150\<rparr>
              \<lparr>kind = ''nod'', intensity = None\<rparr> gsm_init)))
       = [\<lparr>kind = ''shake'', intensity = None\<rparr>]"
proof -
  let ?cfg = "\<lparr>duration_of = (\<lambda>k. if k = ''nod'' then Some 900 else if k = ''shake'' then Some 800 else None), cooldown = (150::real)\<rparr>"
  let ?nod = "\<lparr>kind = ''nod'', intensity = None\<rparr>"
  let ?shake = "\<lparr>kind = ''shake'', intensity = None\<rparr>"
  let ?s = "advance ?cfg 16 (request ?cfg ?nod gsm_init)"
  have k: "duration_of ?cfg (kind ?nod) \<noteq> None" "duration_of ?cfg (kind ?shake) \<noteq> None"
    by simp_all
  have i: "phase gsm_init = Idle" "queued gsm_init = None"
    by (simp_all add: gsm_init_def)
  have s: "?s = \<lparr>phase = Playing, playing = Some ?nod, queued = None, timer = 0, started = [?nod], reported = []\<rparr>"
    by (simp add: advance_def request_def gsm_init_def)
  have p: "phase ?s = Playing" "playing ?s = Some ?nod"
    unfolding s by simp_all
  have d: "curve_length ?cfg ?nod \<le> timer ?s + 900" "cooldown ?cfg \<le> 150"
    unfolding s by (simp_all add: curve_length_def)
  have e: "started gsm_init = []"
    by (simp add: gsm_init_def)
  have r: "\<forall>d \<in> set [16, 17::real]. 0 \<le> d"
      "timer ?s + sum_list [16, 17] < curve_length ?cfg ?nod"
    unfolding s by (simp_all add: curve_length_def)
  from gesture_queue_latest_wins[OF k p r d i, of 16 16 16 "[16, 1000, 200, 16]"] k p i e
  show ?thesis unfolding s by simp
qed

section \<open>Properties of the signal boundary\<close>

lemma weight_at_snapshot:
  "weight_at (map (\<lambda>k. (k, f k)) ks) i = (if i \<in> set ks then f i else 0)"
  by (simp add: weight_at_def map_of_map_restrict restrict_map_def)

lemma weight_at_missing: "i \<notin> fst ` set v \<Longrightarrow> weight_at v i = 0"
  by (simp add: weight_at_def map_of_eq_None_iff[THEN iffD2])

lemma current_weight_missing:
  "i \<notin> fst ` set (origin ch) \<Longrightarrow> i \<notin> fst ` set (target ch) \<Longrightarrow> current_weight ch i = 0"
  by (simp add: current_weight_def weight_at_missing)

lemma setTarget_origin:
  "weight_at (origin (setTarget w hint ch)) i = current_weight ch i"
  using current_weight_missing[of i ch]
  by (auto simp: setTarget_def weight_at_snapshot)

lemma since_advances: "since (advances dts ch) = since ch + sum_list dts"
  unfolding advances_def
  by (induction dts arbitrary: ch) (simp_all add: advance_channel_def)

lemma advances_keeps:
  "origin (advances dts ch) = origin ch \<and> target (advances dts ch) = target ch
   \<and> blend (advances dts ch) = blend ch"
  unfolding advances_def
  by (induction dts arbitrary: ch) (simp_all add: advance_channel_def)

lemma settle_neutral:
  "hint \<le> sum_list dts \<Longrightarrow>
     current_weight (advances dts (setTarget [] hint ch)) i = 0
     \<and> \<not> isActive (advances dts (setTarget [] hint ch))"
  by (simp add: current_weight_def isActive_def since_advances advances_keeps)
     (simp add: setTarget_def weight_at_def)

lemma release_linear:
  "sum_list dts < hint \<Longrightarrow>
     current_weight (advances dts (setTarget [] hint ch)) i
       = current_weight ch i * (1 - sum_list dts / hint)"
proof -
  let ?c = "advances dts (setTarget [] hint ch)"
  assume lt: "sum_list dts < hint"
  have s: "since ?c = sum_list dts" "blend ?c = hint" "target ?c = []"
    "origin ?c = origin (setTarget [] hint ch)"
    by (simp_all add: since_advances advances_keeps) (simp_all add: setTarget_def)
  have "current_weight ?c i
      = weight_at (origin ?c) i + (0 - weight_at (origin ?c) i) * (sum_list dts / hint)"
    using lt unfolding current_weight_def s by (simp add: weight_at_def)
  also have "weight_at (origin ?c) i = current_weight ch i"
    unfolding s by (rule setTarget_origin)
  finally show ?thesis by (simp add: algebra_simps)
qed

lemma App_view_logged_in:
  "tok \<noteq> [] \<Longrightarrow> token s = Some tok \<Longrightarrow>
     App_view s = MainView \<lparr>p_expression = expression s, p_viseme = viseme s,
                     p_gesture = gesture s, p_speaking = speaking s\<rparr> (showHelp s)"
  by (simp add: App_view_def no_token_def)

text \<open>
  Claim C9. \<^verbatim>\<open>null\<close> is a value of each of the three signals, not an error. In
  \<^verbatim>\<open>App\<close> the expression, viseme and gesture cells start as \<^verbatim>\<open>null\<close>; without a
  token (\<^verbatim>\<open>null\<close> or empty) \<^verbatim>\<open>App\<close> shows the login form, and with one its first
  render hands the three \<^verbatim>\<open>null\<close>s to \<^verbatim>\<open>AvatarCanvas\<close>; a setter called with
  \<^verbatim>\<open>null\<close> stores it, and the next render hands \<^verbatim>\<open>null\<close> for that signal and the
  other cells as they were to \<^verbatim>\<open>AvatarCanvas\<close>. At the boundary of a channel a
  \<^verbatim>\<open>null\<close> signal is never rejected: it retargets the channel to the neutral vector,
  starting from the weights the channel has. Over any run of ticks, while the time
  elapsed is short of the blend duration every weight is the weight at the retarget
  scaled down linearly, and once the blend duration has passed every weight of the
  channel is 0 and the channel is idle.
\<close>

theorem null_signal_settles:
  "expression (initial_cells stored) = None
   \<and> viseme (initial_cells stored) = None
   \<and> gesture (initial_cells stored) = None
   \<and> App_view (initial_cells None) = AuthView False
   \<and> App_view (initial_cells (Some [])) = AuthView False
   \<and> (tok \<noteq> [] \<longrightarrow>
        App_view (initial_cells (Some tok))
          = MainView \<lparr>p_expression = None, p_viseme = None, p_gesture = None,
                       p_speaking = False\<rparr> False)
   \<and> (tok \<noteq> [] \<and> token (cells w) = Some tok \<longrightarrow>
        App_view (cells (setExpression None w))
          = MainView \<lparr>p_expression = None, p_viseme = viseme (cells w),
                       p_gesture = gesture (cells w), p_speaking = speaking (cells w)\<rparr>
              (showHelp (cells w))
        \<and> App_view (cells (setViseme None w))
          = MainView \<lparr>p_expression = expression (cells w), p_viseme = None,
                       p_gesture = gesture (cells w), p_speaking = speaking (cells w)\<rparr>
              (showHelp (cells w))
        \<and> App_view (cells (setGesture None w))
          = MainView \<lparr>p_expression = expression (cells w), p_viseme = viseme (cells w),
                       p_gesture = None, p_speaking = speaking (cells w)\<rparr>
              (showHelp (cells w)))
   \<and> expression (cells (setExpression None w)) = None
   \<and> viseme (cells (setViseme None w)) = None
   \<and> gesture (cells (setGesture None w)) = None
   \<and> signal_intake presets hint None ch = Inr (setTarget [] hint ch)
   \<and> target (setTarget [] hint ch) = []
   \<and> weight_at (origin (setTarget [] hint ch)) i = current_weight ch i
   \<and> (sum_list dts < hint \<longrightarrow>
        current_weight (advances dts (setTarget [] hint ch)) i
          = current_weight ch i * (1 - sum_list dts / hint))
   \<and> (hint \<le> sum_list dts \<longrightarrow>
        current_weight (advances dts (setTarget [] hint ch)) i = 0
        \<and> \<not> isActive (advances dts (setTarget [] hint ch)))"
proof -
  have a: "expression (initial_cells stored) = None \<and> viseme (initial_cells stored) = None
      \<and> gesture (initial_cells stored) = None
      \<and> App_view (initial_cells None) = AuthView False
      \<and> App_view (initial_cells (Some [])) = AuthView False"
    by (simp add: initial_cells_def App_view_def no_token_def)
  have b: "tok \<noteq> [] \<longrightarrow>
        App_view (initial_cells (Some tok))
          = MainView \<lparr>p_expression = None, p_viseme = None, p_gesture = None,
                       p_speaking = False\<rparr> False"
    by (simp add: initial_cells_def App_view_def no_token_def)
  have c: "tok \<noteq> [] \<and> token (cells w) = Some tok \<longrightarrow>
        App_view (cells (setExpression None w))
          = MainView \<lparr>p_expression = None, p_viseme = viseme (cells w),
                       p_gesture = gesture (cells w), p_speaking = speaking (cells w)\<rparr>
              (showHelp (cells w))
        \<and> App_view (cells (setViseme None w))
          = MainView \<lparr>p_expression = expression (cells w), p_viseme = None,
                       p_gesture = gesture (cells w), p_speaking = speaking (cells w)\<rparr>
              (showHelp (cells w))
        \<and> App_view (cells (setGesture None w))
          = MainView \<lparr>p_expression = expression (cells w), p_viseme = viseme (cells w),
                       p_gesture = None, p_speaking = speaking (cells w)\<rparr>
              (showHelp (cells w))"
    by (simp add: App_view_def no_token_def setExpression_def setViseme_def setGesture_def)
  have d: "expression (cells (setExpression None w)) = None
      \<and> viseme (cells (setViseme None w)) = None
      \<and> gesture (cells (setGesture None w)) = None"
    by (simp add: setExpression_def setViseme_def setGesture_def)
  have e: "signal_intake presets hint None ch = Inr (setTarget [] hint ch)
      \<and> target (setTarget [] hint ch) = []"
    by (simp add: signal_intake_def setTarget_def)
  note f = setTarget_origin[of "[]" hint ch i]
  note g = release_linear[of dts hint ch i]
  note h = settle_neutral[of hint dts ch i]
  show ?thesis using a b c d e f g h by blast
qed

theorem null_signal_settles_witness:
  "''t'' \<noteq> []
   \<and> token (cells \<lparr>cells = (initial_cells (Some ''t''))\<lparr>expression := Some ''happy''\<rparr>,
        stored_token = Some ''t'', anim_timing = (), render_surface = ()\<rparr>) = Some ''t''
   \<and> App_view (cells (setExpression None
        \<lparr>cells = (initial_cells (Some ''t''))\<lparr>expression := Some ''happy''\<rparr>,
         stored_token = Some ''t'', anim_timing = (), render_surface = ()\<rparr>))
       = MainView \<lparr>p_expression = None, p_viseme = None, p_gesture = None,
                    p_speaking = False\<rparr> False
   \<and> signal_intake (\<lambda>n. if n = ''happy'' then Some [(1, 1)] else None) 200 None
        \<lparr>origin = [], target = [(1, 1)], since = 300, blend = 200\<rparr>
       = Inr \<lparr>origin = [(1, 1)], target = [], since = 0, blend = 200\<rparr>
   \<and> sum_list [60, 40] < (200::real)
   \<and> current_weight (advances [60, 40] (setTarget [] 200
        \<lparr>origin = [], target = [(1, 1)], since = 300, blend = 200\<rparr>)) 1 = 1/2
   \<and> (200::real) \<le> sum_list [60, 40, 100]
   \<and> current_weight (advances [60, 40, 100] (setTarget [] 200
        \<lparr>origin = [], target = [(1, 1)], since = 300, blend = 200\<rparr>)) 1 = 0
   \<and> \<not> isActive (advances [60, 40, 100] (setTarget [] 200
        \<lparr>origin = [], target = [(1, 1)], since = 300, blend = 200\<rparr>))"
  using
    null_signal_settles[where tok = "''t''"
      and w = "\<lparr>cells = (initial_cells (Some ''t''))\<lparr>expression := Some ''happy''\<rparr>,
         stored_token = Some ''t'', anim_timing = (), render_surface = ()\<rparr>"
      and presets = "\<lambda>n. if n = ''happy'' then Some [(1, 1)] else None" and hint = 200
      and ch = "\<lparr>origin = [], target = [(1, 1)], since = 300, blend = 200\<rparr>"
      and dts = "[60, 40]" and i = 1]
    null_signal_settles[where tok = "''t''"
      and w = "\<lparr>cells = (initial_cells (Some ''t''))\<lparr>expression := Some ''happy''\<rparr>,
         stored_token = Some ''t'', anim_timing = (), render_surface = ()\<rparr>"
      and presets = "\<lambda>n. if n = ''happy'' then Some [(1, 1)] else None" and hint = 200
      and ch = "\<lparr>origin = [], target = [(1, 1)], since = 300, blend = 200\<rparr>"
      and dts = "[60, 40, 100]" and i = 1]
  by (simp add: initial_cells_def current_weight_def weight_at_def setTarget_def)

end
